theory Spec2Isabelle
  imports Main
begin

section \<open>Python values used by \<^verbatim>\<open>src/file_parsers.py\<close>\<close>

text \<open>
  Exceptions are values. Every class listed derives from Python's \<^verbatim>\<open>Exception\<close>, so a
  clause \<^verbatim>\<open>except Exception\<close> catches every value of type \<open>exn\<close>; a clause
  \<^verbatim>\<open>except ImportError\<close> catches \<^verbatim>\<open>ImportError\<close> and its subclass
  \<^verbatim>\<open>ModuleNotFoundError\<close> only. \<open>OtherError name\<close> is any further class derived from
  \<^verbatim>\<open>Exception\<close> and from none of the classes listed before it. The second component of an
  exception is what \<^verbatim>\<open>str(e)\<close> prints.
\<close>

datatype exn_class =
    ImportError | ModuleNotFoundError | AttributeError | KeyError | TypeError
  | IndexError | OSError | RuntimeError | ValueError | OtherError string

datatype exn = Exn (exn_cls: exn_class) (exn_str: string)

type_synonym 'a result = "exn + 'a"

definition isinstance_ImportError :: "exn \<Rightarrow> bool" where
  "isinstance_ImportError e \<longleftrightarrow> exn_cls e = ImportError \<or> exn_cls e = ModuleNotFoundError"

definition isinstance_AttributeError :: "exn \<Rightarrow> bool" where
  "isinstance_AttributeError e \<longleftrightarrow> exn_cls e = AttributeError"

text \<open>
  The logger \<^verbatim>\<open>logging.getLogger('IsoQuant')\<close>: the lines written so far, oldest first.
\<close>

datatype level = INFO | WARNING

type_synonym logger = "(level \<times> string) list"

definition logger_info :: "logger \<Rightarrow> string \<Rightarrow> logger" where
  "logger_info lg msg = lg @ [(INFO, msg)]"

definition logger_warning :: "logger \<Rightarrow> string \<Rightarrow> logger" where
  "logger_warning lg msg = lg @ [(WARNING, msg)]"

subsection \<open>Slicing and indexing a \<^verbatim>\<open>str\<close>\<close>

text \<open>
  \<^verbatim>\<open>seq[start:stop]\<close> on a string of length \<open>n\<close>, as CPython adjusts the bounds for step 1:
  a negative bound counts from the end, a bound still negative is 0, a bound beyond the
  end is \<open>n\<close>; an absent start is 0 and an absent stop is \<open>n\<close>; the result is empty when the
  adjusted stop is not beyond the adjusted start.
\<close>

definition adjust_index :: "nat \<Rightarrow> int \<Rightarrow> nat" where
  "adjust_index n i =
     (if i < 0 then (if i + int n < 0 then 0 else nat (i + int n))
      else if int n \<le> i then n else nat i)"

definition py_slice :: "string \<Rightarrow> int option \<Rightarrow> int option \<Rightarrow> string" where
  "py_slice s start stop =
     (let n = length s;
          lo = (case start of None \<Rightarrow> 0 | Some a \<Rightarrow> adjust_index n a);
          hi = (case stop of None \<Rightarrow> n | Some b \<Rightarrow> adjust_index n b)
      in take (hi - lo) (drop lo s))"

text \<open>
  \<^verbatim>\<open>seq[key]\<close> for an integer key: a negative key counts from the end, a key out of range
  raises \<^verbatim>\<open>IndexError\<close>, and the result is a string of one character.
\<close>

definition py_getitem :: "string \<Rightarrow> int \<Rightarrow> string result" where
  "py_getitem s i =
     (let n = int (length s); j = (if i < 0 then i + n else i)
      in if 0 \<le> j \<and> j < n then Inr [s ! nat j]
         else Inl (Exn IndexError ''string index out of range''))"

text \<open>\<^verbatim>\<open>repr\<close> of a key, as \<^verbatim>\<open>str(KeyError(key))\<close> prints it.\<close>

definition repr :: "string \<Rightarrow> string" where
  "repr k = [CHR 0x27] @ k @ [CHR 0x27]"

section \<open>The two engines, as the adapters see them\<close>

text \<open>
  Neither engine is code of this repository; each is a parameter of the model.

  The handle \<^verbatim>\<open>eccLib.parseFASTA\<close> returns is used through \<^verbatim>\<open>keys()\<close>,
  \<^verbatim>\<open>[chr_id]\<close> and, on an entry, \<^verbatim>\<open>dump()\<close>, which returns the sequence or raises.
\<close>

datatype ecc_entry = FastaBuff (dump: "string result")

type_synonym ecc_handle = "(string \<times> ecc_entry) list"

definition handle_keys :: "(string \<times> 'a) list \<Rightarrow> string list" where
  "handle_keys h = map fst h"

text \<open>
  A name looked up on a module: missing, raising on access, or bound to a value.
  \<^verbatim>\<open>hasattr\<close> answers False when the lookup raises \<^verbatim>\<open>AttributeError\<close> and lets every
  other exception through.
\<close>

datatype 'a attr = Missing | Raising exn | Has 'a

definition hasattr :: "'a attr \<Rightarrow> bool result" where
  "hasattr a =
     (case a of
        Missing \<Rightarrow> Inr False
      | Raising e \<Rightarrow> if isinstance_AttributeError e then Inr False else Inl e
      | Has v \<Rightarrow> Inr True)"

record ecclib_module =
  mod_parseFASTA :: "(string \<Rightarrow> ecc_handle result) attr"
  mod_parseGTF :: "unit attr"

text \<open>
  A record of \<^verbatim>\<open>pyfaidx.Fasta\<close>: what \<^verbatim>\<open>len(rec)\<close> returns and what
  \<^verbatim>\<open>str(rec[start:stop])\<close> returns or raises, an absent bound being None.
\<close>

record faidx_record =
  rec_len :: nat
  rec_slice :: "int option \<Rightarrow> int option \<Rightarrow> string result"

type_synonym faidx_handle = "(string \<times> faidx_record) list"

text \<open>
  The platform the process runs on: what executing \<^verbatim>\<open>import eccLib\<close> does, and the
  constructor \<^verbatim>\<open>pyfaidx.Fasta(path, indexname=...)\<close>. pyfaidx is a required dependency
  of IsoQuant, so its import is taken to succeed.
\<close>

record platform =
  import_eccLib :: "ecclib_module result"
  pyfaidx_Fasta :: "string \<Rightarrow> string option \<Rightarrow> faidx_handle result"

section \<open>The capability probe (lines 31--51)\<close>

record globals =
  ECCLIB_AVAILABLE :: bool
  ECCLIB_WORKING :: bool

text \<open>Python's \<^verbatim>\<open>a and b\<close> on two fallible booleans: \<open>b\<close> is evaluated only when \<open>a\<close> is true.\<close>

definition py_and :: "bool result \<Rightarrow> bool result \<Rightarrow> bool result" where
  "py_and a b = (case a of Inl e \<Rightarrow> Inl e | Inr False \<Rightarrow> Inr False | Inr True \<Rightarrow> b)"

text \<open>
  Executing the module's top level. The outer handler is \<^verbatim>\<open>except ImportError\<close>, the inner
  one \<^verbatim>\<open>except Exception\<close>. \<open>Inl e\<close>: the exception leaves the module, whose import fails.
\<close>

definition module_init :: "platform \<Rightarrow> globals result" where
  "module_init p =
     (let g0 = \<lparr>ECCLIB_AVAILABLE = False, ECCLIB_WORKING = False\<rparr> in
      case import_eccLib p of
        Inl e \<Rightarrow> if isinstance_ImportError e then Inr g0 else Inl e
      | Inr m \<Rightarrow>
          (let g1 = g0\<lparr>ECCLIB_AVAILABLE := True\<rparr> in
           case py_and (hasattr (mod_parseFASTA m)) (hasattr (mod_parseGTF m)) of
             Inr True \<Rightarrow> Inr (g1\<lparr>ECCLIB_WORKING := True\<rparr>)
           | Inr False \<Rightarrow> Inr g1
           | Inl e \<Rightarrow> Inr (g1\<lparr>ECCLIB_WORKING := False\<rparr>)))"

text \<open>
  The values the two globals take while the top level runs, one per assignment executed,
  the initial pair of assignments counted as one.
\<close>

definition module_trace :: "platform \<Rightarrow> globals list" where
  "module_trace p =
     (let g0 = \<lparr>ECCLIB_AVAILABLE = False, ECCLIB_WORKING = False\<rparr> in
      case import_eccLib p of
        Inl e \<Rightarrow> [g0]
      | Inr m \<Rightarrow>
          (let g1 = g0\<lparr>ECCLIB_AVAILABLE := True\<rparr> in
           case py_and (hasattr (mod_parseFASTA m)) (hasattr (mod_parseGTF m)) of
             Inr True \<Rightarrow> [g0, g1, g1\<lparr>ECCLIB_WORKING := True\<rparr>]
           | Inr False \<Rightarrow> [g0, g1]
           | Inl e \<Rightarrow> [g0, g1, g1\<lparr>ECCLIB_WORKING := False\<rparr>]))"

definition is_ecclib_available :: "globals \<Rightarrow> bool" where
  "is_ecclib_available g \<longleftrightarrow> ECCLIB_AVAILABLE g \<and> ECCLIB_WORKING g"

text \<open>\<open>n\<close> calls of the probe, one after the other, on the globals of the process.\<close>

fun probe_calls :: "globals \<Rightarrow> nat \<Rightarrow> bool list \<times> globals" where
  "probe_calls g 0 = ([], g)"
| "probe_calls g (Suc n) =
     (let b = is_ecclib_available g; (bs, g') = probe_calls g n in (b # bs, g'))"

section \<open>The pass-through adapter \<^verbatim>\<open>PyfaidxReader\<close> (lines 107--147)\<close>

record pyfaidx_reader =
  Fasta_ctor :: "string \<Rightarrow> string option \<Rightarrow> faidx_handle result"
  fasta :: "faidx_handle option"

definition PyfaidxReader_init :: "platform \<Rightarrow> pyfaidx_reader" where
  "PyfaidxReader_init p = \<lparr>Fasta_ctor = pyfaidx_Fasta p, fasta = None\<rparr>"

text \<open>
  \<^verbatim>\<open>if index_path:\<close> is false for None and for the empty string. A failing constructor
  raises before the assignment to \<^verbatim>\<open>self.fasta\<close>.
\<close>

definition PyfaidxReader_load ::
  "pyfaidx_reader \<Rightarrow> string \<Rightarrow> string option \<Rightarrow> unit result \<times> pyfaidx_reader" where
  "PyfaidxReader_load r fasta_path index_path =
     (if index_path \<noteq> None \<and> index_path \<noteq> Some [] then
        (case Fasta_ctor r fasta_path index_path of
           Inl e \<Rightarrow> (Inl e, r)
         | Inr h \<Rightarrow> (Inr (), r\<lparr>fasta := Some h\<rparr>))
      else
        (case Fasta_ctor r fasta_path None of
           Inl e \<Rightarrow> (Inl e, r)
         | Inr h \<Rightarrow> (Inr (), r\<lparr>fasta := Some h\<rparr>)))"

text \<open>
  \<^verbatim>\<open>obj[chr_id]\<close> on an attribute that is still None raises \<^verbatim>\<open>TypeError\<close>; on a
  handle without the key it raises \<^verbatim>\<open>KeyError\<close>.
\<close>

definition subscript :: "(string \<times> 'a) list option \<Rightarrow> string \<Rightarrow> 'a result" where
  "subscript obj chr_id =
     (case obj of
        None \<Rightarrow> Inl (Exn TypeError (repr ''NoneType'' @ '' object is not subscriptable''))
      | Some h \<Rightarrow>
          (case map_of h chr_id of
             None \<Rightarrow> Inl (Exn KeyError (repr chr_id))
           | Some v \<Rightarrow> Inr v))"

definition call_keys :: "(string \<times> 'a) list option \<Rightarrow> string list result" where
  "call_keys obj =
     (case obj of
        None \<Rightarrow>
          Inl (Exn AttributeError
                 (repr ''NoneType'' @ '' object has no attribute '' @ repr ''keys''))
      | Some h \<Rightarrow> Inr (handle_keys h))"

definition PyfaidxReader_get_sequence ::
  "pyfaidx_reader \<Rightarrow> string \<Rightarrow> int option \<Rightarrow> int option \<Rightarrow> string result" where
  "PyfaidxReader_get_sequence r chr_id start end =
     (if start = None \<and> end = None then
        (case subscript (fasta r) chr_id of
           Inl e \<Rightarrow> Inl e | Inr rc \<Rightarrow> rec_slice rc None None)
      else if start \<noteq> None \<and> end \<noteq> None then
        (case subscript (fasta r) chr_id of
           Inl e \<Rightarrow> Inl e | Inr rc \<Rightarrow> rec_slice rc start end)
      else if start \<noteq> None then
        (case subscript (fasta r) chr_id of
           Inl e \<Rightarrow> Inl e | Inr rc \<Rightarrow> rec_slice rc start None)
      else
        (case subscript (fasta r) chr_id of
           Inl e \<Rightarrow> Inl e | Inr rc \<Rightarrow> rec_slice rc None end))"

definition PyfaidxReader_get_chromosome_record ::
  "pyfaidx_reader \<Rightarrow> string \<Rightarrow> faidx_record result" where
  "PyfaidxReader_get_chromosome_record r chr_id = subscript (fasta r) chr_id"

definition PyfaidxReader_get_chromosome_ids :: "pyfaidx_reader \<Rightarrow> string list result" where
  "PyfaidxReader_get_chromosome_ids r = call_keys (fasta r)"


section \<open>The adaptation adapter \<^verbatim>\<open>EccLibFASTAReader\<close> (lines 150--219)\<close>

record ecclib_reader =
  ecclib :: ecclib_module
  fasta_data :: "ecc_handle option"
  sequence_cache :: "string \<rightharpoonup> string"

text \<open>The constructor executes \<^verbatim>\<open>import eccLib\<close> again.\<close>

definition EccLibFASTAReader_init :: "platform \<Rightarrow> ecclib_reader result" where
  "EccLibFASTAReader_init p =
     (case import_eccLib p of
        Inl e \<Rightarrow> Inl e
      | Inr m \<Rightarrow> Inr \<lparr>ecclib = m, fasta_data = None, sequence_cache = Map.empty\<rparr>)"

text \<open>\<^verbatim>\<open>self._ecclib.parseFASTA(fasta_path)\<close>: the attribute lookup, then the call.\<close>

definition call_parseFASTA :: "ecclib_module \<Rightarrow> string \<Rightarrow> ecc_handle result" where
  "call_parseFASTA m fasta_path =
     (case mod_parseFASTA m of
        Missing \<Rightarrow>
          Inl (Exn AttributeError
                 (''module '' @ repr ''eccLib'' @ '' has no attribute '' @ repr ''parseFASTA''))
      | Raising e \<Rightarrow> Inl e
      | Has f \<Rightarrow> f fasta_path)"

text \<open>
  The loop of \<^verbatim>\<open>load\<close> over \<^verbatim>\<open>self.fasta_data.keys()\<close>. It stops at the first
  exception and keeps the entries written before it.
\<close>

fun precache ::
  "ecc_handle \<Rightarrow> string list \<Rightarrow> (string \<rightharpoonup> string) \<Rightarrow> exn option \<times> (string \<rightharpoonup> string)" where
  "precache h [] cache = (None, cache)"
| "precache h (chr_id # ks) cache =
     (case subscript (Some h) chr_id of
        Inl e \<Rightarrow> (Some e, cache)
      | Inr ent \<Rightarrow>
          (case dump ent of
             Inl e \<Rightarrow> (Some e, cache)
           | Inr s \<Rightarrow> precache h ks (cache(chr_id \<mapsto> s))))"

text \<open>
  \<^verbatim>\<open>index_path\<close> is ignored. Every exception of the body is logged as a warning and
  raised again; the reader keeps what the body assigned before it.
\<close>

definition EccLibFASTAReader_load ::
  "ecclib_reader \<Rightarrow> string \<Rightarrow> string option \<Rightarrow> logger
     \<Rightarrow> unit result \<times> ecclib_reader \<times> logger" where
  "EccLibFASTAReader_load r fasta_path index_path lg =
     (case call_parseFASTA (ecclib r) fasta_path of
        Inl e \<Rightarrow>
          (Inl e, r, logger_warning lg (''eccLib FASTA parsing failed: '' @ exn_str e))
      | Inr h \<Rightarrow>
          (let r1 = r\<lparr>fasta_data := Some h\<rparr> in
           case precache h (handle_keys h) (sequence_cache r1) of
             (Some e, cache) \<Rightarrow>
               (Inl e, r1\<lparr>sequence_cache := cache\<rparr>,
                logger_warning lg (''eccLib FASTA parsing failed: '' @ exn_str e))
           | (None, cache) \<Rightarrow> (Inr (), r1\<lparr>sequence_cache := cache\<rparr>, lg)))"

definition EccLibFASTAReader_get_sequence ::
  "ecclib_reader \<Rightarrow> string \<Rightarrow> int option \<Rightarrow> int option \<Rightarrow> string result \<times> ecclib_reader" where
  "EccLibFASTAReader_get_sequence r chr_id start end =
     (case (case sequence_cache r chr_id of
              Some seq \<Rightarrow> (Inr seq, r)
            | None \<Rightarrow>
                (case subscript (fasta_data r) chr_id of
                   Inl e \<Rightarrow> (Inl e, r)
                 | Inr ent \<Rightarrow>
                     (case dump ent of
                        Inl e \<Rightarrow> (Inl e, r)
                      | Inr seq \<Rightarrow>
                          (Inr seq, r\<lparr>sequence_cache := (sequence_cache r)(chr_id \<mapsto> seq)\<rparr>)))) of
        (Inl e, r') \<Rightarrow> (Inl e, r')
      | (Inr seq, r') \<Rightarrow>
          (if start = None \<and> end = None then (Inr seq, r')
           else if start \<noteq> None \<and> end \<noteq> None then (Inr (py_slice seq start end), r')
           else if start \<noteq> None then (Inr (py_slice seq start None), r')
           else (Inr (py_slice seq None end), r')))"

definition EccLibFASTAReader_get_chromosome_ids :: "ecclib_reader \<Rightarrow> string list result" where
  "EccLibFASTAReader_get_chromosome_ids r = call_keys (fasta_data r)"

definition EccLibFASTAReader_get_chromosome_length ::
  "ecclib_reader \<Rightarrow> string \<Rightarrow> nat result \<times> ecclib_reader" where
  "EccLibFASTAReader_get_chromosome_length r chr_id =
     (case (case sequence_cache r chr_id of
              Some seq \<Rightarrow> (Inr seq, r)
            | None \<Rightarrow>
                (case subscript (fasta_data r) chr_id of
                   Inl e \<Rightarrow> (Inl e, r)
                 | Inr ent \<Rightarrow>
                     (case dump ent of
                        Inl e \<Rightarrow> (Inl e, r)
                      | Inr seq \<Rightarrow>
                          (Inr seq, r\<lparr>sequence_cache := (sequence_cache r)(chr_id \<mapsto> seq)\<rparr>)))) of
        (Inl e, r') \<Rightarrow> (Inl e, r')
      | (Inr seq, r') \<Rightarrow> (Inr (length seq), r'))"

section \<open>The region view \<^verbatim>\<open>EccLibChromosomeRecord\<close> (lines 222--250)\<close>

text \<open>
  The view holds a reference to its reader and a chromosome id. The reader is the object
  the view's methods mutate, so each method takes the reader's state and returns the new
  one; the view itself is the id.
\<close>

record chromosome_record =
  view_chr_id :: string

definition EccLibFASTAReader_get_chromosome_record ::
  "ecclib_reader \<Rightarrow> string \<Rightarrow> chromosome_record" where
  "EccLibFASTAReader_get_chromosome_record r chr_id = \<lparr>view_chr_id = chr_id\<rparr>"

text \<open>
  A key of \<^verbatim>\<open>__getitem__\<close>: a slice with its three components, an integer (a bool is one),
  or a value of any other type, of which only \<^verbatim>\<open>type(key).__name__\<close> is used.
\<close>

datatype key = SliceKey "int option" "int option" "int option" | IntKey int | OtherKey string

definition EccLibChromosomeRecord_getitem ::
  "ecclib_reader \<Rightarrow> chromosome_record \<Rightarrow> key \<Rightarrow> string result \<times> ecclib_reader" where
  "EccLibChromosomeRecord_getitem r v k =
     (case k of
        SliceKey start stop step \<Rightarrow> EccLibFASTAReader_get_sequence r (view_chr_id v) start stop
      | IntKey i \<Rightarrow>
          (case EccLibFASTAReader_get_sequence r (view_chr_id v) None None of
             (Inl e, r') \<Rightarrow> (Inl e, r')
           | (Inr seq, r') \<Rightarrow> (py_getitem seq i, r'))
      | OtherKey type_name \<Rightarrow>
          (Inl (Exn TypeError (''indices must be integers or slices, not '' @ type_name)), r))"

definition EccLibChromosomeRecord_len :: "ecclib_reader \<Rightarrow> chromosome_record \<Rightarrow> nat result \<times> ecclib_reader" where
  "EccLibChromosomeRecord_len r v = EccLibFASTAReader_get_chromosome_length r (view_chr_id v)"

definition EccLibChromosomeRecord_str :: "ecclib_reader \<Rightarrow> chromosome_record \<Rightarrow> string result \<times> ecclib_reader" where
  "EccLibChromosomeRecord_str r v = EccLibFASTAReader_get_sequence r (view_chr_id v) None None"

section \<open>The interface and the factory (lines 54--105, 253--293)\<close>

text \<open>
  \<^verbatim>\<open>FASTAReaderInterface\<close> has the two implementations; a call through the interface
  dispatches on the class.
\<close>

datatype reader = PyfaidxReader pyfaidx_reader | EccLibFASTAReader ecclib_reader

definition load ::
  "reader \<Rightarrow> string \<Rightarrow> string option \<Rightarrow> logger \<Rightarrow> unit result \<times> reader \<times> logger" where
  "load rd fasta_path index_path lg =
     (case rd of
        PyfaidxReader r \<Rightarrow>
          (case PyfaidxReader_load r fasta_path index_path of
             (res, r') \<Rightarrow> (res, PyfaidxReader r', lg))
      | EccLibFASTAReader r \<Rightarrow>
          (case EccLibFASTAReader_load r fasta_path index_path lg of
             (res, r', lg') \<Rightarrow> (res, EccLibFASTAReader r', lg')))"

definition get_sequence ::
  "reader \<Rightarrow> string \<Rightarrow> int option \<Rightarrow> int option \<Rightarrow> string result \<times> reader" where
  "get_sequence rd chr_id start end =
     (case rd of
        PyfaidxReader r \<Rightarrow> (PyfaidxReader_get_sequence r chr_id start end, rd)
      | EccLibFASTAReader r \<Rightarrow>
          (case EccLibFASTAReader_get_sequence r chr_id start end of
             (res, r') \<Rightarrow> (res, EccLibFASTAReader r')))"


definition get_chromosome_ids :: "reader \<Rightarrow> string list result" where
  "get_chromosome_ids rd =
     (case rd of
        PyfaidxReader r \<Rightarrow> PyfaidxReader_get_chromosome_ids r
      | EccLibFASTAReader r \<Rightarrow> EccLibFASTAReader_get_chromosome_ids r)"

definition get_fasta_reader ::
  "platform \<Rightarrow> globals \<Rightarrow> bool \<Rightarrow> logger \<Rightarrow> reader result \<times> logger" where
  "get_fasta_reader p g use_ecclib lg =
     (if use_ecclib then
        (if is_ecclib_available g then
           (let lg1 = logger_info lg ''Using eccLib for FASTA access'' in
            case EccLibFASTAReader_init p of
              Inl e \<Rightarrow> (Inl e, lg1)
            | Inr r \<Rightarrow> (Inr (EccLibFASTAReader r), lg1))
         else
           (let lg1 =
              (if ECCLIB_AVAILABLE g then
                 logger_warning lg
                   (''eccLib is installed but not working correctly on this platform, '' @
                    ''falling back to pyfaidx'')
               else
                 logger_warning lg ''eccLib requested but not installed, falling back to pyfaidx'')
            in (Inr (PyfaidxReader (PyfaidxReader_init p)), lg1)))
      else (Inr (PyfaidxReader (PyfaidxReader_init p)), lg))"

definition create_fasta_reader ::
  "platform \<Rightarrow> globals \<Rightarrow> string \<Rightarrow> string option \<Rightarrow> bool \<Rightarrow> logger
     \<Rightarrow> reader result \<times> logger" where
  "create_fasta_reader p g fasta_path index_path use_ecclib lg =
     (case get_fasta_reader p g use_ecclib lg of
        (Inl e, lg1) \<Rightarrow> (Inl e, lg1)
      | (Inr rd, lg1) \<Rightarrow>
          (case load rd fasta_path index_path lg1 of
             (Inl e, rd', lg2) \<Rightarrow> (Inl e, lg2)
           | (Inr u, rd', lg2) \<Rightarrow> (Inr rd', lg2)))"

section \<open>Contracts of the engines\<close>

text \<open>
  A contract of the pass-through engine, which the adapter cannot check: a record reports
  the length of \<open>seq\<close> and returns the region of \<open>seq\<close> for the bounds
  \<open>0 \<le> a \<le> b \<le> length seq\<close>. Nothing is asked of it for other bounds.
\<close>

definition region :: "string \<Rightarrow> int \<Rightarrow> int \<Rightarrow> string" where
  "region seq a b = take (nat (b - a)) (drop (nat a) seq)"

definition exposes_sequence :: "faidx_record \<Rightarrow> string \<Rightarrow> bool" where
  "exposes_sequence rc seq \<longleftrightarrow>
     rec_len rc = length seq \<and>
     (\<forall>a b. 0 \<le> a \<and> a \<le> b \<and> b \<le> int (length seq)
        \<longrightarrow> rec_slice rc (Some a) (Some b) = Inr (region seq a b))"

subsection \<open>A concrete platform\<close>

text \<open>
  A reference file \<^verbatim>\<open>ref.fa\<close> with two records, as both engines present it, and a
  platform on which eccLib is installed with both entry points.
\<close>

definition ref_fa :: "(string \<times> string) list" where
  "ref_fa = [(''chr1'', ''ACGTACGTAC''), (''chr2'', ''GGCCA'')]"

definition faidx_of :: "string \<Rightarrow> faidx_record" where
  "faidx_of seq = \<lparr>rec_len = length seq, rec_slice = (\<lambda>a b. Inr (py_slice seq a b))\<rparr>"

definition example_parseFASTA :: "string \<Rightarrow> ecc_handle result" where
  "example_parseFASTA path =
     (if path = ''ref.fa'' then Inr (map (\<lambda>(c, seq). (c, FastaBuff (Inr seq))) ref_fa)
      else Inl (Exn OSError ''cannot open file''))"

definition example_Fasta :: "string \<Rightarrow> string option \<Rightarrow> faidx_handle result" where
  "example_Fasta path index_name =
     (if path = ''ref.fa'' then Inr (map (\<lambda>(c, seq). (c, faidx_of seq)) ref_fa)
      else Inl (Exn OSError ''cannot open file''))"

definition example_module :: ecclib_module where
  "example_module = \<lparr>mod_parseFASTA = Has example_parseFASTA, mod_parseGTF = Has ()\<rparr>"

definition example_platform :: platform where
  "example_platform = \<lparr>import_eccLib = Inr example_module, pyfaidx_Fasta = example_Fasta\<rparr>"

definition working_globals :: globals where
  "working_globals = \<lparr>ECCLIB_AVAILABLE = True, ECCLIB_WORKING = True\<rparr>"

definition fresh_ecclib_reader :: ecclib_reader where
  "fresh_ecclib_reader =
     \<lparr>ecclib = example_module, fasta_data = None, sequence_cache = Map.empty\<rparr>"

definition loaded_ecclib_reader :: ecclib_reader where
  "loaded_ecclib_reader =
     \<lparr>ecclib = example_module,
      fasta_data = Some [(''chr1'', FastaBuff (Inr ''ACGTACGTAC'')), (''chr2'', FastaBuff (Inr ''GGCCA''))],
      sequence_cache = [''chr1'' \<mapsto> ''ACGTACGTAC'', ''chr2'' \<mapsto> ''GGCCA'']\<rparr>"

definition loaded_pyfaidx_reader :: pyfaidx_reader where
  "loaded_pyfaidx_reader =
     \<lparr>Fasta_ctor = example_Fasta,
      fasta = Some [(''chr1'', faidx_of ''ACGTACGTAC''), (''chr2'', faidx_of ''GGCCA'')]\<rparr>"

text \<open>A platform on which executing \<^verbatim>\<open>import eccLib\<close> raises \<^verbatim>\<open>RuntimeError\<close>.\<close>

definition raising_platform :: platform where
  "raising_platform =
     \<lparr>import_eccLib = Inl (Exn RuntimeError ''extension module failed to initialise''),
      pyfaidx_Fasta = example_Fasta\<rparr>"

text \<open>The loaded reader with its cache emptied: every lookup is a miss.\<close>

definition uncached_ecclib_reader :: ecclib_reader where
  "uncached_ecclib_reader = loaded_ecclib_reader\<lparr>sequence_cache := Map.empty\<rparr>"

subsection \<open>An engine that bounds the start\<close>

text \<open>
  A pass-through engine over the same file whose records refuse a start that lies before
  the beginning of the sequence, as pyfaidx's records do by raising its \<^verbatim>\<open>FetchError\<close>
  (here an \<^verbatim>\<open>IndexError\<close>); for every other pair of bounds they slice as the string does.
\<close>

definition bounded_faidx_of :: "string \<Rightarrow> faidx_record" where
  "bounded_faidx_of seq =
     \<lparr>rec_len = length seq,
      rec_slice =
        (\<lambda>a b. case a of
                  None \<Rightarrow> Inr (py_slice seq a b)
                | Some i \<Rightarrow>
                    if i + int (length seq) < 0
                    then Inl (Exn IndexError ''requested start is before the sequence'')
                    else Inr (py_slice seq a b))\<rparr>"

definition bounded_Fasta :: "string \<Rightarrow> string option \<Rightarrow> faidx_handle result" where
  "bounded_Fasta path index_name =
     (if path = ''ref.fa'' then Inr (map (\<lambda>(c, seq). (c, bounded_faidx_of seq)) ref_fa)
      else Inl (Exn OSError ''cannot open file''))"

definition bounded_platform :: platform where
  "bounded_platform = \<lparr>import_eccLib = Inr example_module, pyfaidx_Fasta = bounded_Fasta\<rparr>"

definition bounded_pyfaidx_reader :: pyfaidx_reader where
  "bounded_pyfaidx_reader =
     \<lparr>Fasta_ctor = bounded_Fasta,
      fasta = Some [(''chr1'', bounded_faidx_of ''ACGTACGTAC''), (''chr2'', bounded_faidx_of ''GGCCA'')]\<rparr>"

section \<open>Facts about slicing\<close>

lemma py_slice_full: "py_slice s None None = s"
  by (simp add: py_slice_def)

lemma py_slice_region:
  assumes "0 \<le> a" "a \<le> b" "b \<le> int (length s)"
  shows "py_slice s (Some a) (Some b) = region s a b"
proof -
  have "adjust_index (length s) a = nat a" "adjust_index (length s) b = nat b"
    using assms by (auto simp: adjust_index_def)
  moreover have "nat b - nat a = nat (b - a)"
    using assms by linarith
  ultimately show ?thesis
    by (simp add: py_slice_def region_def)
qed

lemma py_getitem_offset:
  assumes "0 \<le> i" "i < int (length seq)"
  shows "py_getitem seq i = Inr [seq ! nat i]"
  using assms by (simp add: py_getitem_def)

section \<open>Facts about the probe\<close>

text \<open>
  A successful import always ends the top level normally; a failed one does so exactly
  when the exception is an \<^verbatim>\<open>ImportError\<close>.
\<close>

lemma module_init_import_ok:
  assumes "import_eccLib p = Inr m"
  shows "\<exists>w. module_init p = Inr \<lparr>ECCLIB_AVAILABLE = True, ECCLIB_WORKING = w\<rparr>"
  using assms
  by (auto simp: module_init_def Let_def split: sum.splits bool.splits)

lemma module_init_import_error:
  assumes "import_eccLib p = Inl e"
  shows "module_init p =
           (if isinstance_ImportError e
            then Inr \<lparr>ECCLIB_AVAILABLE = False, ECCLIB_WORKING = False\<rparr> else Inl e)"
  using assms by (simp add: module_init_def)

lemma module_init_globals:
  assumes "module_init p = Inr g"
  shows "g = \<lparr>ECCLIB_AVAILABLE = False, ECCLIB_WORKING = False\<rparr> \<and> (\<exists>e. import_eccLib p = Inl e)
       \<or> ECCLIB_AVAILABLE g \<and> (\<exists>m. import_eccLib p = Inr m)"
  using assms
  by (auto simp: module_init_def Let_def split: sum.splits if_splits bool.splits)

lemma module_init_last_trace:
  assumes "module_init p = Inr g"
  shows "g = last (module_trace p)"
  using assms
  by (auto simp: module_init_def module_trace_def Let_def split: sum.splits if_splits bool.splits)

text \<open>Once the module is imported, any number of calls return the same boolean and leave
  the globals as they are.\<close>

lemma probe_calls_eq: "probe_calls g n = (replicate n (is_ecclib_available g), g)"
  by (induction n) simp_all

section \<open>Facts about the adaptation adapter\<close>

subsection \<open>Lookups\<close>

lemma ecc_get_sequence_hit:
  assumes "sequence_cache r c = Some seq"
  shows "EccLibFASTAReader_get_sequence r c a b = (Inr (py_slice seq a b), r)"
  using assms by (cases a; cases b) (simp_all add: EccLibFASTAReader_get_sequence_def py_slice_full)

lemma ecc_get_sequence_miss:
  assumes "sequence_cache r c = None" "subscript (fasta_data r) c = Inr ent" "dump ent = Inr seq"
  shows "EccLibFASTAReader_get_sequence r c a b =
           (Inr (py_slice seq a b), r\<lparr>sequence_cache := (sequence_cache r)(c \<mapsto> seq)\<rparr>)"
  using assms by (cases a; cases b) (simp_all add: EccLibFASTAReader_get_sequence_def py_slice_full)

lemma ecc_get_chromosome_length_hit:
  assumes "sequence_cache r c = Some seq"
  shows "EccLibFASTAReader_get_chromosome_length r c = (Inr (length seq), r)"
  using assms by (simp add: EccLibFASTAReader_get_chromosome_length_def)

lemma ecc_get_chromosome_length_miss:
  assumes "sequence_cache r c = None" "subscript (fasta_data r) c = Inr ent" "dump ent = Inr seq"
  shows "EccLibFASTAReader_get_chromosome_length r c =
           (Inr (length seq), r\<lparr>sequence_cache := (sequence_cache r)(c \<mapsto> seq)\<rparr>)"
  using assms by (simp add: EccLibFASTAReader_get_chromosome_length_def)

lemma ecc_length_follows_sequence:
  "EccLibFASTAReader_get_chromosome_length r c =
     (case EccLibFASTAReader_get_sequence r c None None of
        (Inl e, r') \<Rightarrow> (Inl e, r')
      | (Inr seq, r') \<Rightarrow> (Inr (length seq), r'))"
  by (simp add: EccLibFASTAReader_get_chromosome_length_def EccLibFASTAReader_get_sequence_def
           split: option.splits sum.splits)

lemma subscript_Inr_iff:
  "subscript obj c = Inr v \<longleftrightarrow> (\<exists>h. obj = Some h \<and> map_of h c = Some v)"
  by (auto simp: subscript_def split: option.splits)

lemma subscript_in_keys:
  assumes "subscript (Some h) c = Inr v"
  shows "c \<in> set (handle_keys h)"
  using assms by (auto simp: subscript_Inr_iff handle_keys_def dest: map_of_SomeD intro: rev_image_eqI)

subsection \<open>The loop of load\<close>

text \<open>
  The loop ends without an exception only if every key it visited has an entry whose dump
  succeeded, and then the cache holds that dump; keys it did not visit keep their entry.
  A key listed twice is written twice with the same value.
\<close>

lemma precache_done:
  assumes "precache h ks cache = (None, cache')"
  shows "(\<forall>c \<in> set ks. \<exists>ent seq. subscript (Some h) c = Inr ent \<and> dump ent = Inr seq \<and> cache' c = Some seq)
       \<and> (\<forall>c. c \<notin> set ks \<longrightarrow> cache' c = cache c)"
  using assms
proof (induction ks arbitrary: cache)
  case Nil
  then show ?case by simp
next
  case (Cons k ks)
  from Cons.prems obtain ent seq where
    ent: "subscript (Some h) k = Inr ent" and seq: "dump ent = Inr seq"
    and rest: "precache h ks (cache(k \<mapsto> seq)) = (None, cache')"
    by (auto split: sum.splits)
  note ih = Cons.IH [OF rest]
  have "cache' k = Some seq"
  proof (cases "k \<in> set ks")
    case True
    with ih ent seq show ?thesis by fastforce
  next
    case False
    with ih show ?thesis by simp
  qed
  with ih ent seq show ?case by auto
qed

lemma precache_succeeds:
  assumes "\<forall>c \<in> set ks. \<exists>ent seq. subscript (Some h) c = Inr ent \<and> dump ent = Inr seq"
  shows "\<exists>cache'. precache h ks cache = (None, cache')"
  using assms by (induction ks arbitrary: cache) auto

lemma precache_raises:
  assumes "precache h ks cache = (Some e, cache')"
  shows "\<exists>c \<in> set ks. subscript (Some h) c = Inl e \<or> (\<exists>ent. subscript (Some h) c = Inr ent \<and> dump ent = Inl e)"
  using assms by (induction ks arbitrary: cache) (auto split: sum.splits)

subsection \<open>load\<close>

lemma ecc_load_done:
  assumes "EccLibFASTAReader_load r0 path idx lg = (Inr (), r, lg')"
  shows "\<exists>h. call_parseFASTA (ecclib r0) path = Inr h \<and> fasta_data r = Some h \<and>
             ecclib r = ecclib r0 \<and> lg' = lg \<and>
             (\<forall>c \<in> set (handle_keys h). \<exists>ent seq.
                subscript (Some h) c = Inr ent \<and> dump ent = Inr seq \<and> sequence_cache r c = Some seq)"
proof -
  from assms obtain h cache where
    h: "call_parseFASTA (ecclib r0) path = Inr h"
    and pc: "precache h (handle_keys h) (sequence_cache r0) = (None, cache)"
    and r: "r = r0\<lparr>fasta_data := Some h, sequence_cache := cache\<rparr>" and lg: "lg' = lg"
    by (auto simp: EccLibFASTAReader_load_def Let_def split: sum.splits prod.splits option.splits)
  from precache_done [OF pc] h r lg show ?thesis by simp
qed

lemma ecc_load_succeeds:
  assumes "call_parseFASTA (ecclib r0) path = Inr h"
    and "\<forall>c \<in> set (handle_keys h). \<exists>ent seq. subscript (Some h) c = Inr ent \<and> dump ent = Inr seq"
  shows "\<exists>r. EccLibFASTAReader_load r0 path idx lg = (Inr (), r, lg)"
proof -
  from precache_succeeds [OF assms(2)] obtain cache where
    "precache h (handle_keys h) (sequence_cache r0) = (None, cache)" by blast
  with assms(1) show ?thesis
    by (simp add: EccLibFASTAReader_load_def)
qed

text \<open>Whatever the body of load raises, parse or dump, the warning carries its message.\<close>

lemma ecc_load_raises:
  assumes "EccLibFASTAReader_load r0 path idx lg = (Inl e, r, lg')"
  shows "lg' = logger_warning lg (''eccLib FASTA parsing failed: '' @ exn_str e)"
  using assms
  by (auto simp: EccLibFASTAReader_load_def Let_def split: sum.splits prod.splits option.splits)

lemma ecc_loaded_cache:
  assumes "EccLibFASTAReader_load r0 path idx lg = (Inr (), r, lg')"
    and "subscript (fasta_data r) c = Inr ent" and "dump ent = Inr seq"
  shows "sequence_cache r c = Some seq"
proof -
  from ecc_load_done [OF assms(1)] obtain h where
    h: "fasta_data r = Some h"
    and all: "\<forall>c \<in> set (handle_keys h). \<exists>ent seq.
                subscript (Some h) c = Inr ent \<and> dump ent = Inr seq \<and> sequence_cache r c = Some seq"
    by blast
  from assms(2) h have "c \<in> set (handle_keys h)"
    by (simp add: subscript_in_keys)
  with all assms(2,3) h show ?thesis by fastforce
qed

section \<open>The concrete platform, evaluated\<close>

lemma example_module_init: "module_init example_platform = Inr working_globals"
  by (simp add: module_init_def example_platform_def example_module_def
        working_globals_def hasattr_def py_and_def)

lemma example_ecc_load:
  "EccLibFASTAReader_load fresh_ecclib_reader ''ref.fa'' None lg = (Inr (), loaded_ecclib_reader, lg)"
  by (simp add: EccLibFASTAReader_load_def call_parseFASTA_def fresh_ecclib_reader_def
        example_module_def example_parseFASTA_def ref_fa_def handle_keys_def subscript_def
        loaded_ecclib_reader_def)

lemma example_pyfaidx_load:
  "PyfaidxReader_load (PyfaidxReader_init example_platform) ''ref.fa'' None = (Inr (), loaded_pyfaidx_reader)"
  by (simp add: PyfaidxReader_load_def PyfaidxReader_init_def example_platform_def
        example_Fasta_def ref_fa_def loaded_pyfaidx_reader_def)

lemma example_load_ecc:
  "load (EccLibFASTAReader fresh_ecclib_reader) ''ref.fa'' None lg =
     (Inr (), EccLibFASTAReader loaded_ecclib_reader, lg)"
  by (simp add: load_def example_ecc_load)

lemma example_load_pyfaidx:
  "load (PyfaidxReader (PyfaidxReader_init example_platform)) ''ref.fa'' None lg =
     (Inr (), PyfaidxReader loaded_pyfaidx_reader, lg)"
  by (simp add: load_def example_pyfaidx_load)


lemma example_full_sequence:
  "EccLibFASTAReader_get_sequence loaded_ecclib_reader ''chr1'' None None =
     (Inr ''ACGTACGTAC'', loaded_ecclib_reader)"
  by (simp add: EccLibFASTAReader_get_sequence_def loaded_ecclib_reader_def)

lemma example_parse_fails:
  "call_parseFASTA example_module ''missing.fa'' = Inl (Exn OSError ''cannot open file'')"
  by (simp add: call_parseFASTA_def example_module_def example_parseFASTA_def)

lemma example_select:
  "get_fasta_reader example_platform working_globals True [] =
     (Inr (EccLibFASTAReader fresh_ecclib_reader), [(INFO, ''Using eccLib for FASTA access'')])"
  by (simp add: get_fasta_reader_def is_ecclib_available_def working_globals_def
        EccLibFASTAReader_init_def example_platform_def fresh_ecclib_reader_def logger_info_def)

lemma example_miss:
  "sequence_cache uncached_ecclib_reader ''chr2'' = None \<and>
   subscript (fasta_data uncached_ecclib_reader) ''chr2'' = Inr (FastaBuff (Inr ''GGCCA'')) \<and>
   dump (FastaBuff (Inr ''GGCCA'')) = Inr ''GGCCA''"
  by (simp add: uncached_ecclib_reader_def loaded_ecclib_reader_def subscript_def)

lemma example_keys:
  "EccLibFASTAReader_get_chromosome_ids loaded_ecclib_reader = Inr [''chr1'', ''chr2'']"
  by (simp add: EccLibFASTAReader_get_chromosome_ids_def call_keys_def handle_keys_def
        loaded_ecclib_reader_def)

lemma example_bounded_load:
  "load (PyfaidxReader (PyfaidxReader_init bounded_platform)) ''ref.fa'' None lg =
     (Inr (), PyfaidxReader bounded_pyfaidx_reader, lg)"
  by (simp add: load_def PyfaidxReader_load_def PyfaidxReader_init_def bounded_platform_def
        bounded_Fasta_def ref_fa_def bounded_pyfaidx_reader_def)

lemma example_bounded_subscript:
  "subscript (fasta bounded_pyfaidx_reader) ''chr2'' = Inr (bounded_faidx_of ''GGCCA'')"
  by (simp add: bounded_pyfaidx_reader_def subscript_def)

lemma bounded_exposes: "exposes_sequence (bounded_faidx_of seq) seq"
  unfolding exposes_sequence_def
proof (intro conjI allI impI)
  show "rec_len (bounded_faidx_of seq) = length seq"
    by (simp add: bounded_faidx_of_def)
next
  fix a b :: int
  assume ab: "0 \<le> a \<and> a \<le> b \<and> b \<le> int (length seq)"
  then have "py_slice seq (Some a) (Some b) = region seq a b"
    by (intro py_slice_region) simp_all
  with ab show "rec_slice (bounded_faidx_of seq) (Some a) (Some b) = Inr (region seq a b)"
    by (simp add: bounded_faidx_of_def)
qed

section \<open>Properties of the adapters, the probe and the factory\<close>

subsection \<open>C1: what the factory selects\<close>

text \<open>
  C1. In a process whose module import completed with globals \<open>g\<close>, for either value of
  the flag, \<^verbatim>\<open>get_fasta_reader(use_ecclib)\<close> returns an \<^verbatim>\<open>EccLibFASTAReader\<close> when
  \<open>use_ecclib\<close> is true and the probe reports eccLib both available and working, and a
  \<^verbatim>\<open>PyfaidxReader\<close> in every other case. The two constructors of \<open>reader\<close> are distinct,
  so this is an equivalence.
\<close>

theorem get_fasta_reader_selects:
  assumes "module_init p = Inr g"
  shows "(use_ecclib \<and> ECCLIB_AVAILABLE g \<and> ECCLIB_WORKING g \<longrightarrow>
            (\<exists>r. fst (get_fasta_reader p g use_ecclib lg) = Inr (EccLibFASTAReader r))) \<and>
         (\<not> (use_ecclib \<and> ECCLIB_AVAILABLE g \<and> ECCLIB_WORKING g) \<longrightarrow>
            (\<exists>r. fst (get_fasta_reader p g use_ecclib lg) = Inr (PyfaidxReader r)))"
proof (cases "use_ecclib \<and> ECCLIB_AVAILABLE g \<and> ECCLIB_WORKING g")
  case True
  with module_init_globals [OF assms] obtain m where "import_eccLib p = Inr m"
    by auto
  with True show ?thesis
    by (simp add: get_fasta_reader_def is_ecclib_available_def EccLibFASTAReader_init_def Let_def)
next
  case False
  then show ?thesis
    by (auto simp: get_fasta_reader_def is_ecclib_available_def Let_def)
qed

theorem get_fasta_reader_selects_witness:
  "module_init example_platform = Inr working_globals \<and>
   fst (get_fasta_reader example_platform working_globals True []) =
     Inr (EccLibFASTAReader fresh_ecclib_reader) \<and>
   fst (get_fasta_reader example_platform working_globals False []) =
     Inr (PyfaidxReader (PyfaidxReader_init example_platform))"
  using get_fasta_reader_selects [of example_platform working_globals True "[]"]
    get_fasta_reader_selects [of example_platform working_globals False "[]"]
  by (simp add: module_init_def example_platform_def example_module_def
        working_globals_def hasattr_def py_and_def is_ecclib_available_def
        get_fasta_reader_def EccLibFASTAReader_init_def fresh_ecclib_reader_def Let_def)

subsection \<open>C2: the four forms of get_sequence\<close>

text \<open>
  C2 asks that, for either adapter, the four forms of \<^verbatim>\<open>get_sequence\<close> be the Python
  slices of the full sequence. The pass-through adapter hands the bounds to the engine's
  record and returns what the record returns, so the engine's slicing decides: over the
  engine of \<open>bounded_platform\<close> the loaded reader returns \<^verbatim>\<open>GGCCA\<close> for
  \<^verbatim>\<open>get_sequence('chr2')\<close> and raises for \<^verbatim>\<open>get_sequence('chr2', -6, None)\<close>, where the
  Python slice \<^verbatim>\<open>'GGCCA'[-6:]\<close> is \<^verbatim>\<open>GGCCA\<close>.
\<close>

theorem pass_through_slicing_counterexample:
  "load (PyfaidxReader (PyfaidxReader_init bounded_platform)) ''ref.fa'' None [] =
     (Inr (), PyfaidxReader bounded_pyfaidx_reader, []) \<and>
   get_sequence (PyfaidxReader bounded_pyfaidx_reader) ''chr2'' None None =
     (Inr ''GGCCA'', PyfaidxReader bounded_pyfaidx_reader) \<and>
   py_slice ''GGCCA'' (Some (- 6)) None = ''GGCCA'' \<and>
   fst (get_sequence (PyfaidxReader bounded_pyfaidx_reader) ''chr2'' (Some (- 6)) None) \<noteq>
     Inr (py_slice ''GGCCA'' (Some (- 6)) None)"
proof -
  have "get_sequence (PyfaidxReader bounded_pyfaidx_reader) ''chr2'' None None =
     (Inr ''GGCCA'', PyfaidxReader bounded_pyfaidx_reader)"
    by (simp add: get_sequence_def PyfaidxReader_get_sequence_def example_bounded_subscript
          bounded_faidx_of_def py_slice_full)
  moreover have "py_slice ''GGCCA'' (Some (- 6)) None = ''GGCCA''"
    by (simp add: py_slice_def adjust_index_def)
  moreover have "fst (get_sequence (PyfaidxReader bounded_pyfaidx_reader) ''chr2'' (Some (- 6)) None) =
     Inl (Exn IndexError ''requested start is before the sequence'')"
    by (simp add: get_sequence_def PyfaidxReader_get_sequence_def example_bounded_subscript
          bounded_faidx_of_def)
  ultimately show ?thesis
    using example_bounded_load [of "[]"] by simp
qed

text \<open>
  C2, amended. For the adaptation adapter after a successful \<^verbatim>\<open>load\<close> and a chromosome
  \<open>c\<close> of the parsed handle whose dump is \<open>seq\<close>: \<^verbatim>\<open>get_sequence(c)\<close>,
  \<^verbatim>\<open>get_sequence(c, start, None)\<close>, \<^verbatim>\<open>get_sequence(c, None, end)\<close> and
  \<^verbatim>\<open>get_sequence(c, start, end)\<close> return \<open>seq\<close>, \<^verbatim>\<open>seq[start:]\<close>, \<^verbatim>\<open>seq[:end]\<close> and
  \<^verbatim>\<open>seq[start:end]\<close> under Python's open slicing, for all bounds, and leave the reader as
  it is. For the pass-through adapter after a successful \<^verbatim>\<open>load\<close> and a chromosome \<open>c\<close>
  of its handle with record \<open>rc\<close>: the four forms return what \<^verbatim>\<open>rc[:]\<close>,
  \<^verbatim>\<open>rc[start:]\<close>, \<^verbatim>\<open>rc[:end]\<close> and \<^verbatim>\<open>rc[start:end]\<close> return or raise, with exactly the
  bounds given; and when the record exposes \<open>seq\<close>, \<^verbatim>\<open>get_sequence(c, start, end)\<close> is the
  Python slice \<^verbatim>\<open>seq[start:end]\<close> for \<open>0 \<le> start \<le> end \<le> length seq\<close>.
\<close>

theorem get_sequence_slicing:
  "(EccLibFASTAReader_load er0 fasta_path index_path lg = (Inr (), er, lg') \<and>
    subscript (fasta_data er) c = Inr ent \<and> dump ent = Inr seq
      \<longrightarrow> get_sequence (EccLibFASTAReader er) c None None = (Inr seq, EccLibFASTAReader er) \<and>
          get_sequence (EccLibFASTAReader er) c (Some start) None =
            (Inr (py_slice seq (Some start) None), EccLibFASTAReader er) \<and>
          get_sequence (EccLibFASTAReader er) c None (Some end) =
            (Inr (py_slice seq None (Some end)), EccLibFASTAReader er) \<and>
          get_sequence (EccLibFASTAReader er) c (Some start) (Some end) =
            (Inr (py_slice seq (Some start) (Some end)), EccLibFASTAReader er)) \<and>
   (PyfaidxReader_load pr0 fasta_path index_path = (Inr (), pr) \<and>
    subscript (fasta pr) c = Inr rc
      \<longrightarrow> get_sequence (PyfaidxReader pr) c None None =
            (rec_slice rc None None, PyfaidxReader pr) \<and>
          get_sequence (PyfaidxReader pr) c (Some start) None =
            (rec_slice rc (Some start) None, PyfaidxReader pr) \<and>
          get_sequence (PyfaidxReader pr) c None (Some end) =
            (rec_slice rc None (Some end), PyfaidxReader pr) \<and>
          get_sequence (PyfaidxReader pr) c (Some start) (Some end) =
            (rec_slice rc (Some start) (Some end), PyfaidxReader pr)) \<and>
   (PyfaidxReader_load pr0 fasta_path index_path = (Inr (), pr) \<and>
    subscript (fasta pr) c = Inr rc \<and> exposes_sequence rc seq \<and>
    0 \<le> start \<and> start \<le> end \<and> end \<le> int (length seq)
      \<longrightarrow> get_sequence (PyfaidxReader pr) c (Some start) (Some end) =
            (Inr (py_slice seq (Some start) (Some end)), PyfaidxReader pr))"
proof (intro conjI impI)
  assume a: "EccLibFASTAReader_load er0 fasta_path index_path lg = (Inr (), er, lg') \<and>
    subscript (fasta_data er) c = Inr ent \<and> dump ent = Inr seq"
  then have "sequence_cache er c = Some seq"
    using ecc_loaded_cache by blast
  from ecc_get_sequence_hit [OF this]
  have hit: "\<And>a b. get_sequence (EccLibFASTAReader er) c a b =
      (Inr (py_slice seq a b), EccLibFASTAReader er)"
    by (simp add: get_sequence_def)
  show "get_sequence (EccLibFASTAReader er) c None None = (Inr seq, EccLibFASTAReader er)"
    by (simp add: hit py_slice_full)
  show "get_sequence (EccLibFASTAReader er) c (Some start) None =
      (Inr (py_slice seq (Some start) None), EccLibFASTAReader er)"
    by (rule hit)
  show "get_sequence (EccLibFASTAReader er) c None (Some end) =
      (Inr (py_slice seq None (Some end)), EccLibFASTAReader er)"
    by (rule hit)
  show "get_sequence (EccLibFASTAReader er) c (Some start) (Some end) =
      (Inr (py_slice seq (Some start) (Some end)), EccLibFASTAReader er)"
    by (rule hit)
next
  assume a: "PyfaidxReader_load pr0 fasta_path index_path = (Inr (), pr) \<and>
    subscript (fasta pr) c = Inr rc"
  then have pass: "\<And>a b. get_sequence (PyfaidxReader pr) c a b = (rec_slice rc a b, PyfaidxReader pr)"
    by (simp add: get_sequence_def PyfaidxReader_get_sequence_def)
  show "get_sequence (PyfaidxReader pr) c None None = (rec_slice rc None None, PyfaidxReader pr)"
    by (rule pass)
  show "get_sequence (PyfaidxReader pr) c (Some start) None =
      (rec_slice rc (Some start) None, PyfaidxReader pr)"
    by (rule pass)
  show "get_sequence (PyfaidxReader pr) c None (Some end) =
      (rec_slice rc None (Some end), PyfaidxReader pr)"
    by (rule pass)
  show "get_sequence (PyfaidxReader pr) c (Some start) (Some end) =
      (rec_slice rc (Some start) (Some end), PyfaidxReader pr)"
    by (rule pass)
next
  assume a: "PyfaidxReader_load pr0 fasta_path index_path = (Inr (), pr) \<and>
    subscript (fasta pr) c = Inr rc \<and> exposes_sequence rc seq \<and>
    0 \<le> start \<and> start \<le> end \<and> end \<le> int (length seq)"
  then have "rec_slice rc (Some start) (Some end) = Inr (region seq start end)"
    by (simp add: exposes_sequence_def)
  moreover from a have "py_slice seq (Some start) (Some end) = region seq start end"
    by (simp add: py_slice_region)
  ultimately show "get_sequence (PyfaidxReader pr) c (Some start) (Some end) =
      (Inr (py_slice seq (Some start) (Some end)), PyfaidxReader pr)"
    using a by (simp add: get_sequence_def PyfaidxReader_get_sequence_def)
qed

theorem get_sequence_slicing_witness:
  "EccLibFASTAReader_load fresh_ecclib_reader ''ref.fa'' None [] =
     (Inr (), loaded_ecclib_reader, []) \<and>
   subscript (fasta_data loaded_ecclib_reader) ''chr2'' = Inr (FastaBuff (Inr ''GGCCA'')) \<and>
   get_sequence (EccLibFASTAReader loaded_ecclib_reader) ''chr2'' None None =
     (Inr ''GGCCA'', EccLibFASTAReader loaded_ecclib_reader) \<and>
   get_sequence (EccLibFASTAReader loaded_ecclib_reader) ''chr2'' (Some (- 6)) None =
     (Inr ''GGCCA'', EccLibFASTAReader loaded_ecclib_reader) \<and>
   get_sequence (EccLibFASTAReader loaded_ecclib_reader) ''chr2'' None (Some 3) =
     (Inr ''GGC'', EccLibFASTAReader loaded_ecclib_reader) \<and>
   get_sequence (EccLibFASTAReader loaded_ecclib_reader) ''chr2'' (Some (- 6)) (Some 3) =
     (Inr ''GGC'', EccLibFASTAReader loaded_ecclib_reader) \<and>
   PyfaidxReader_load (PyfaidxReader_init bounded_platform) ''ref.fa'' None =
     (Inr (), bounded_pyfaidx_reader) \<and>
   subscript (fasta bounded_pyfaidx_reader) ''chr2'' = Inr (bounded_faidx_of ''GGCCA'') \<and>
   exposes_sequence (bounded_faidx_of ''GGCCA'') ''GGCCA'' \<and>
   get_sequence (PyfaidxReader bounded_pyfaidx_reader) ''chr2'' (Some 1) (Some 4) =
     (Inr ''GCC'', PyfaidxReader bounded_pyfaidx_reader)"
proof -
  have l: "PyfaidxReader_load (PyfaidxReader_init bounded_platform) ''ref.fa'' None =
     (Inr (), bounded_pyfaidx_reader)"
    by (simp add: PyfaidxReader_load_def PyfaidxReader_init_def bounded_platform_def
          bounded_Fasta_def ref_fa_def bounded_pyfaidx_reader_def)
  have s: "subscript (fasta_data loaded_ecclib_reader) ''chr2'' = Inr (FastaBuff (Inr ''GGCCA''))"
    by (simp add: loaded_ecclib_reader_def subscript_def)
  have v: "py_slice ''GGCCA'' (Some (- 6)) None = ''GGCCA''"
    "py_slice ''GGCCA'' None (Some 3) = ''GGC''"
    "py_slice ''GGCCA'' (Some (- 6)) (Some 3) = ''GGC''"
    "py_slice ''GGCCA'' (Some 1) (Some 4) = ''GCC''"
    by (simp_all add: py_slice_def adjust_index_def)
  note t = get_sequence_slicing [of fresh_ecclib_reader "''ref.fa''" None "[]"
      loaded_ecclib_reader "[]" "''chr2''" "FastaBuff (Inr ''GGCCA'')" "''GGCCA''" "- 6" 3]
  from t example_ecc_load [of "[]"] s
  have e: "get_sequence (EccLibFASTAReader loaded_ecclib_reader) ''chr2'' None None =
       (Inr ''GGCCA'', EccLibFASTAReader loaded_ecclib_reader) \<and>
     get_sequence (EccLibFASTAReader loaded_ecclib_reader) ''chr2'' (Some (- 6)) None =
       (Inr (py_slice ''GGCCA'' (Some (- 6)) None), EccLibFASTAReader loaded_ecclib_reader) \<and>
     get_sequence (EccLibFASTAReader loaded_ecclib_reader) ''chr2'' None (Some 3) =
       (Inr (py_slice ''GGCCA'' None (Some 3)), EccLibFASTAReader loaded_ecclib_reader) \<and>
     get_sequence (EccLibFASTAReader loaded_ecclib_reader) ''chr2'' (Some (- 6)) (Some 3) =
       (Inr (py_slice ''GGCCA'' (Some (- 6)) (Some 3)), EccLibFASTAReader loaded_ecclib_reader)"
    by simp
  note u = get_sequence_slicing [of _ "''ref.fa''" None _ _ _ "''chr2''" _ "''GGCCA''" 1 4
      "PyfaidxReader_init bounded_platform" bounded_pyfaidx_reader "bounded_faidx_of ''GGCCA''"]
  from u l example_bounded_subscript bounded_exposes [of "''GGCCA''"]
  have p: "get_sequence (PyfaidxReader bounded_pyfaidx_reader) ''chr2'' (Some 1) (Some 4) =
       (Inr (py_slice ''GGCCA'' (Some 1) (Some 4)), PyfaidxReader bounded_pyfaidx_reader)"
    by (simp add: bounded_faidx_of_def)
  from e p v l s example_ecc_load [of "[]"] example_bounded_subscript
    bounded_exposes [of "''GGCCA''"]
  show ?thesis by simp
qed

subsection \<open>C3: the two adapters agree\<close>



subsection \<open>C4: indexing a region view\<close>

text \<open>
  C4. For the view that \<^verbatim>\<open>get_chromosome_record(c)\<close> returns over a reader \<open>r\<close>: a slice
  key gives what \<^verbatim>\<open>r.get_sequence(c, key.start, key.stop)\<close> gives, result and reader
  state alike; an integer key \<open>i\<close> within the full sequence gives the one character at
  offset \<open>i\<close> of the full sequence; a key of any other type raises \<^verbatim>\<open>TypeError\<close> with a
  message that ends in the name of the key's type, and leaves the reader as it was.
\<close>

theorem record_getitem_contract:
  "EccLibChromosomeRecord_getitem r (EccLibFASTAReader_get_chromosome_record r c) (SliceKey start stop step) =
     EccLibFASTAReader_get_sequence r c start stop \<and>
   (EccLibFASTAReader_get_sequence r c None None = (Inr seq, r') \<and> 0 \<le> i \<and> i < int (length seq)
      \<longrightarrow> EccLibChromosomeRecord_getitem r (EccLibFASTAReader_get_chromosome_record r c) (IntKey i) =
            (Inr [seq ! nat i], r')) \<and>
   EccLibChromosomeRecord_getitem r (EccLibFASTAReader_get_chromosome_record r c) (OtherKey type_name) =
     (Inl (Exn TypeError (''indices must be integers or slices, not '' @ type_name)), r)"
  by (simp add: EccLibChromosomeRecord_getitem_def EccLibFASTAReader_get_chromosome_record_def py_getitem_offset)

theorem record_getitem_contract_witness:
  "EccLibFASTAReader_get_sequence loaded_ecclib_reader ''chr1'' None None =
     (Inr ''ACGTACGTAC'', loaded_ecclib_reader) \<and>
   EccLibChromosomeRecord_getitem loaded_ecclib_reader
       (EccLibFASTAReader_get_chromosome_record loaded_ecclib_reader ''chr1'') (IntKey 3) =
     (Inr ''T'', loaded_ecclib_reader) \<and>
   EccLibChromosomeRecord_getitem loaded_ecclib_reader
       (EccLibFASTAReader_get_chromosome_record loaded_ecclib_reader ''chr1'') (OtherKey ''float'') =
     (Inl (Exn TypeError ''indices must be integers or slices, not float''), loaded_ecclib_reader)"
  using record_getitem_contract [of loaded_ecclib_reader "''chr1''" None None None
      "''ACGTACGTAC''" loaded_ecclib_reader 3 "''float''"]
    example_full_sequence
  by simp

subsection \<open>C5: the probe under a failing import\<close>

text \<open>
  C5 says the probe never raises, whatever the platform, a raising import included. The
  module's top level catches \<^verbatim>\<open>ImportError\<close> only around \<^verbatim>\<open>import eccLib\<close>: on the
  platform \<open>raising_platform\<close>, where the import raises \<^verbatim>\<open>RuntimeError\<close>, the exception
  leaves the module, the import of \<^verbatim>\<open>file_parsers\<close> fails and no call of
  \<^verbatim>\<open>is_ecclib_available\<close> can be made. The rest of the claim holds wherever the import
  completes (\<open>module_init_import_ok\<close>, \<open>module_init_import_error\<close>, \<open>probe_calls_eq\<close>).
\<close>

theorem probe_escapes_import_failure:
  "module_init raising_platform = Inl (Exn RuntimeError ''extension module failed to initialise'')"
  by (simp add: module_init_def raising_platform_def isinstance_ImportError_def)

subsection \<open>C6: a failing load is not absorbed\<close>

text \<open>
  C6. When \<^verbatim>\<open>parseFASTA\<close> raises \<open>e\<close>, \<^verbatim>\<open>EccLibFASTAReader.load\<close> raises the same \<open>e\<close>,
  having logged one warning with the message of \<open>e\<close>, and leaves the reader as it was.
  When the reader the factory selected fails to load with \<open>e'\<close>, \<^verbatim>\<open>create_fasta_reader\<close>
  raises \<open>e'\<close> and logs nothing after the load. In particular, with eccLib selected and
  its parse raising \<open>e\<close>, \<^verbatim>\<open>create_fasta_reader\<close> raises \<open>e\<close> after exactly the two log
  lines of the selection and of the failed load, whatever pyfaidx would have done with
  the file.
\<close>

theorem load_failure_propagates:
  "(call_parseFASTA (ecclib r) fasta_path = Inl e \<longrightarrow>
      EccLibFASTAReader_load r fasta_path index_path lg =
        (Inl e, r, logger_warning lg (''eccLib FASTA parsing failed: '' @ exn_str e))) \<and>
   (get_fasta_reader p g use_ecclib lg = (Inr rd, lg1) \<and>
    load rd fasta_path index_path lg1 = (Inl e', rd', lg2) \<longrightarrow>
      create_fasta_reader p g fasta_path index_path use_ecclib lg = (Inl e', lg2)) \<and>
   (is_ecclib_available g \<and> import_eccLib p = Inr m \<and> call_parseFASTA m fasta_path = Inl e \<longrightarrow>
      create_fasta_reader p g fasta_path index_path True lg =
        (Inl e, lg @ [(INFO, ''Using eccLib for FASTA access''),
                      (WARNING, ''eccLib FASTA parsing failed: '' @ exn_str e)]))"
proof (intro conjI impI)
  assume "call_parseFASTA (ecclib r) fasta_path = Inl e"
  then show "EccLibFASTAReader_load r fasta_path index_path lg =
      (Inl e, r, logger_warning lg (''eccLib FASTA parsing failed: '' @ exn_str e))"
    by (simp add: EccLibFASTAReader_load_def)
next
  assume "get_fasta_reader p g use_ecclib lg = (Inr rd, lg1) \<and>
    load rd fasta_path index_path lg1 = (Inl e', rd', lg2)"
  then show "create_fasta_reader p g fasta_path index_path use_ecclib lg = (Inl e', lg2)"
    by (simp add: create_fasta_reader_def)
next
  assume a: "is_ecclib_available g \<and> import_eccLib p = Inr m \<and> call_parseFASTA m fasta_path = Inl e"
  then have "get_fasta_reader p g True lg =
      (Inr (EccLibFASTAReader \<lparr>ecclib = m, fasta_data = None, sequence_cache = Map.empty\<rparr>),
       lg @ [(INFO, ''Using eccLib for FASTA access'')])"
    by (simp add: get_fasta_reader_def EccLibFASTAReader_init_def logger_info_def)
  moreover from a have
    "load (EccLibFASTAReader \<lparr>ecclib = m, fasta_data = None, sequence_cache = Map.empty\<rparr>)
       fasta_path index_path (lg @ [(INFO, ''Using eccLib for FASTA access'')]) =
     (Inl e, EccLibFASTAReader \<lparr>ecclib = m, fasta_data = None, sequence_cache = Map.empty\<rparr>,
      lg @ [(INFO, ''Using eccLib for FASTA access''),
            (WARNING, ''eccLib FASTA parsing failed: '' @ exn_str e)])"
    by (simp add: load_def EccLibFASTAReader_load_def logger_warning_def)
  ultimately show "create_fasta_reader p g fasta_path index_path True lg =
      (Inl e, lg @ [(INFO, ''Using eccLib for FASTA access''),
                    (WARNING, ''eccLib FASTA parsing failed: '' @ exn_str e)])"
    by (simp add: create_fasta_reader_def)
qed

theorem load_failure_propagates_witness:
  "call_parseFASTA (ecclib fresh_ecclib_reader) ''missing.fa'' = Inl (Exn OSError ''cannot open file'') \<and>
   EccLibFASTAReader_load fresh_ecclib_reader ''missing.fa'' None [] =
     (Inl (Exn OSError ''cannot open file''), fresh_ecclib_reader,
      [(WARNING, ''eccLib FASTA parsing failed: cannot open file'')]) \<and>
   get_fasta_reader example_platform working_globals True [] =
     (Inr (EccLibFASTAReader fresh_ecclib_reader), [(INFO, ''Using eccLib for FASTA access'')]) \<and>
   load (EccLibFASTAReader fresh_ecclib_reader) ''missing.fa'' None
       [(INFO, ''Using eccLib for FASTA access'')] =
     (Inl (Exn OSError ''cannot open file''), EccLibFASTAReader fresh_ecclib_reader,
      [(INFO, ''Using eccLib for FASTA access''),
       (WARNING, ''eccLib FASTA parsing failed: cannot open file'')]) \<and>
   is_ecclib_available working_globals \<and>
   import_eccLib example_platform = Inr example_module \<and>
   create_fasta_reader example_platform working_globals ''missing.fa'' None True [] =
     (Inl (Exn OSError ''cannot open file''),
      [(INFO, ''Using eccLib for FASTA access''),
       (WARNING, ''eccLib FASTA parsing failed: cannot open file'')])"
proof -
  have f: "ecclib fresh_ecclib_reader = example_module"
    by (simp add: fresh_ecclib_reader_def)
  have a: "is_ecclib_available working_globals" "import_eccLib example_platform = Inr example_module"
    by (simp_all add: is_ecclib_available_def working_globals_def example_platform_def)
  have l: "load (EccLibFASTAReader fresh_ecclib_reader) ''missing.fa'' None
       [(INFO, ''Using eccLib for FASTA access'')] =
     (Inl (Exn OSError ''cannot open file''), EccLibFASTAReader fresh_ecclib_reader,
      [(INFO, ''Using eccLib for FASTA access''),
       (WARNING, ''eccLib FASTA parsing failed: cannot open file'')])"
    by (simp add: load_def EccLibFASTAReader_load_def f example_parse_fails logger_warning_def)
  from load_failure_propagates [of fresh_ecclib_reader "''missing.fa''"
      "Exn OSError ''cannot open file''" None "[]" example_platform working_globals True
      "EccLibFASTAReader fresh_ecclib_reader" "[(INFO, ''Using eccLib for FASTA access'')]"
      "Exn OSError ''cannot open file''" "EccLibFASTAReader fresh_ecclib_reader"
      "[(INFO, ''Using eccLib for FASTA access''),
        (WARNING, ''eccLib FASTA parsing failed: cannot open file'')]" example_module]
    f a l example_parse_fails example_select
  show ?thesis
    by (simp add: logger_warning_def)
qed

subsection \<open>C7: the cache after load and after a miss\<close>

text \<open>
  C7. \<^verbatim>\<open>EccLibFASTAReader.load\<close> succeeds when the parse returns a handle all of whose
  entries dump; after a successful load the cache holds, for every chromosome id of the
  parsed handle, the dump of its entry. In any state where the cache has no entry for \<open>c\<close>
  and the parsed handle has one that dumps \<open>seq\<close>, \<^verbatim>\<open>get_sequence(c, start, end)\<close> and
  \<^verbatim>\<open>get_chromosome_length(c)\<close> return the slice and the length of \<open>seq\<close>, and the reader
  they leave has \<open>seq\<close> in the cache under \<open>c\<close>.
\<close>

theorem cache_filled_by_load_and_on_miss:
  "(call_parseFASTA (ecclib r0) fasta_path = Inr h \<and>
    (\<forall>c \<in> set (handle_keys h). \<exists>ent seq. subscript (Some h) c = Inr ent \<and> dump ent = Inr seq)
      \<longrightarrow> (\<exists>r. EccLibFASTAReader_load r0 fasta_path index_path lg = (Inr (), r, lg))) \<and>
   (EccLibFASTAReader_load r0 fasta_path index_path lg = (Inr (), r, lg')
      \<longrightarrow> (\<exists>h. call_parseFASTA (ecclib r0) fasta_path = Inr h \<and> fasta_data r = Some h \<and>
             (\<forall>c \<in> set (handle_keys h). \<exists>ent seq.
                subscript (Some h) c = Inr ent \<and> dump ent = Inr seq \<and>
                sequence_cache r c = Some seq))) \<and>
   (sequence_cache r1 c = None \<and> subscript (fasta_data r1) c = Inr ent \<and> dump ent = Inr seq
      \<longrightarrow> EccLibFASTAReader_get_sequence r1 c start end =
            (Inr (py_slice seq start end), r1\<lparr>sequence_cache := (sequence_cache r1)(c \<mapsto> seq)\<rparr>) \<and>
          EccLibFASTAReader_get_chromosome_length r1 c =
            (Inr (length seq), r1\<lparr>sequence_cache := (sequence_cache r1)(c \<mapsto> seq)\<rparr>) \<and>
          sequence_cache (snd (EccLibFASTAReader_get_sequence r1 c start end)) c = Some seq \<and>
          sequence_cache (snd (EccLibFASTAReader_get_chromosome_length r1 c)) c = Some seq)"
proof (intro conjI impI)
  assume "call_parseFASTA (ecclib r0) fasta_path = Inr h \<and>
    (\<forall>c \<in> set (handle_keys h). \<exists>ent seq. subscript (Some h) c = Inr ent \<and> dump ent = Inr seq)"
  then show "\<exists>r. EccLibFASTAReader_load r0 fasta_path index_path lg = (Inr (), r, lg)"
    using ecc_load_succeeds by blast
next
  assume "EccLibFASTAReader_load r0 fasta_path index_path lg = (Inr (), r, lg')"
  from ecc_load_done [OF this]
  show "\<exists>h. call_parseFASTA (ecclib r0) fasta_path = Inr h \<and> fasta_data r = Some h \<and>
             (\<forall>c \<in> set (handle_keys h). \<exists>ent seq.
                subscript (Some h) c = Inr ent \<and> dump ent = Inr seq \<and>
                sequence_cache r c = Some seq)"
    by blast
next
  assume a: "sequence_cache r1 c = None \<and> subscript (fasta_data r1) c = Inr ent \<and> dump ent = Inr seq"
  then have s: "EccLibFASTAReader_get_sequence r1 c start end =
            (Inr (py_slice seq start end), r1\<lparr>sequence_cache := (sequence_cache r1)(c \<mapsto> seq)\<rparr>)"
    by (simp add: ecc_get_sequence_miss)
  from a have l: "EccLibFASTAReader_get_chromosome_length r1 c =
            (Inr (length seq), r1\<lparr>sequence_cache := (sequence_cache r1)(c \<mapsto> seq)\<rparr>)"
    by (simp add: ecc_get_chromosome_length_miss)
  show "EccLibFASTAReader_get_sequence r1 c start end =
            (Inr (py_slice seq start end), r1\<lparr>sequence_cache := (sequence_cache r1)(c \<mapsto> seq)\<rparr>)"
    by (fact s)
  show "EccLibFASTAReader_get_chromosome_length r1 c =
            (Inr (length seq), r1\<lparr>sequence_cache := (sequence_cache r1)(c \<mapsto> seq)\<rparr>)"
    by (fact l)
  show "sequence_cache (snd (EccLibFASTAReader_get_sequence r1 c start end)) c = Some seq"
    by (simp add: s)
  show "sequence_cache (snd (EccLibFASTAReader_get_chromosome_length r1 c)) c = Some seq"
    by (simp add: l)
qed

theorem cache_filled_by_load_and_on_miss_witness:
  "EccLibFASTAReader_load fresh_ecclib_reader ''ref.fa'' None [] =
     (Inr (), loaded_ecclib_reader, []) \<and>
   sequence_cache loaded_ecclib_reader ''chr1'' = Some ''ACGTACGTAC'' \<and>
   sequence_cache loaded_ecclib_reader ''chr2'' = Some ''GGCCA'' \<and>
   sequence_cache uncached_ecclib_reader ''chr2'' = None \<and>
   subscript (fasta_data uncached_ecclib_reader) ''chr2'' = Inr (FastaBuff (Inr ''GGCCA'')) \<and>
   EccLibFASTAReader_get_sequence uncached_ecclib_reader ''chr2'' (Some 1) (Some 4) =
     (Inr ''GCC'', uncached_ecclib_reader\<lparr>sequence_cache := [''chr2'' \<mapsto> ''GGCCA'']\<rparr>) \<and>
   EccLibFASTAReader_get_chromosome_length uncached_ecclib_reader ''chr2'' =
     (Inr 5, uncached_ecclib_reader\<lparr>sequence_cache := [''chr2'' \<mapsto> ''GGCCA'']\<rparr>)"
proof -
  note t = cache_filled_by_load_and_on_miss [of fresh_ecclib_reader "''ref.fa''" _ None "[]"
      loaded_ecclib_reader "[]" uncached_ecclib_reader "''chr2''" "FastaBuff (Inr ''GGCCA'')"
      "''GGCCA''" "Some 1" "Some 4"]
  from t example_miss have
    "EccLibFASTAReader_get_sequence uncached_ecclib_reader ''chr2'' (Some 1) (Some 4) =
       (Inr (py_slice ''GGCCA'' (Some 1) (Some 4)),
        uncached_ecclib_reader\<lparr>sequence_cache :=
          (sequence_cache uncached_ecclib_reader)(''chr2'' \<mapsto> ''GGCCA'')\<rparr>)"
    and "EccLibFASTAReader_get_chromosome_length uncached_ecclib_reader ''chr2'' =
       (Inr (length ''GGCCA''),
        uncached_ecclib_reader\<lparr>sequence_cache :=
          (sequence_cache uncached_ecclib_reader)(''chr2'' \<mapsto> ''GGCCA'')\<rparr>)"
    by blast+
  moreover have "py_slice ''GGCCA'' (Some 1) (Some 4) = ''GCC''"
    by (simp add: py_slice_def adjust_index_def)
  moreover have "sequence_cache uncached_ecclib_reader = Map.empty"
    by (simp add: uncached_ecclib_reader_def)
  moreover have "sequence_cache loaded_ecclib_reader ''chr1'' = Some ''ACGTACGTAC''"
    "sequence_cache loaded_ecclib_reader ''chr2'' = Some ''GGCCA''"
    by (simp_all add: loaded_ecclib_reader_def)
  ultimately show ?thesis
    using example_miss example_ecc_load [of "[]"] by simp
qed

subsection \<open>C8: the length is the length of the sequence\<close>

text \<open>
  C8. For the adaptation adapter after a successful load and every chromosome id \<open>c\<close> that
  \<^verbatim>\<open>get_chromosome_ids()\<close> lists, \<^verbatim>\<open>get_sequence(c)\<close> returns a string and
  \<^verbatim>\<open>get_chromosome_length(c)\<close> returns its length. More generally, in any state of the
  reader, cache hit or miss, whenever \<^verbatim>\<open>get_sequence(c)\<close> returns \<open>seq\<close>,
  \<^verbatim>\<open>get_chromosome_length(c)\<close> returns the length of \<open>seq\<close> and leaves the same reader.
\<close>

theorem length_is_sequence_length:
  "(EccLibFASTAReader_load r0 fasta_path index_path lg = (Inr (), r, lg') \<and>
    EccLibFASTAReader_get_chromosome_ids r = Inr ids \<and> c \<in> set ids
      \<longrightarrow> (\<exists>seq. EccLibFASTAReader_get_sequence r c None None = (Inr seq, r) \<and>
                 EccLibFASTAReader_get_chromosome_length r c = (Inr (length seq), r))) \<and>
   (EccLibFASTAReader_get_sequence r1 c1 None None = (Inr seq1, r1')
      \<longrightarrow> EccLibFASTAReader_get_chromosome_length r1 c1 = (Inr (length seq1), r1'))"
proof (intro conjI impI)
  assume a: "EccLibFASTAReader_load r0 fasta_path index_path lg = (Inr (), r, lg') \<and>
    EccLibFASTAReader_get_chromosome_ids r = Inr ids \<and> c \<in> set ids"
  from a ecc_load_done [of r0 fasta_path index_path lg r lg'] obtain h where
    h: "fasta_data r = Some h"
    and all: "\<forall>c \<in> set (handle_keys h). \<exists>ent seq.
                subscript (Some h) c = Inr ent \<and> dump ent = Inr seq \<and> sequence_cache r c = Some seq"
    by blast
  from a h have "c \<in> set (handle_keys h)"
    by (auto simp: EccLibFASTAReader_get_chromosome_ids_def call_keys_def)
  with all obtain seq where hit: "sequence_cache r c = Some seq"
    by blast
  have "EccLibFASTAReader_get_sequence r c None None = (Inr seq, r)"
    by (simp add: ecc_get_sequence_hit [OF hit] py_slice_full)
  moreover have "EccLibFASTAReader_get_chromosome_length r c = (Inr (length seq), r)"
    by (simp add: ecc_get_chromosome_length_hit [OF hit])
  ultimately
  show "\<exists>seq. EccLibFASTAReader_get_sequence r c None None = (Inr seq, r) \<and>
              EccLibFASTAReader_get_chromosome_length r c = (Inr (length seq), r)"
    by blast
next
  assume "EccLibFASTAReader_get_sequence r1 c1 None None = (Inr seq1, r1')"
  then show "EccLibFASTAReader_get_chromosome_length r1 c1 = (Inr (length seq1), r1')"
    by (simp add: ecc_length_follows_sequence)
qed

theorem length_is_sequence_length_witness:
  "EccLibFASTAReader_load fresh_ecclib_reader ''ref.fa'' None [] =
     (Inr (), loaded_ecclib_reader, []) \<and>
   EccLibFASTAReader_get_chromosome_ids loaded_ecclib_reader = Inr [''chr1'', ''chr2''] \<and>
   EccLibFASTAReader_get_sequence loaded_ecclib_reader ''chr1'' None None =
     (Inr ''ACGTACGTAC'', loaded_ecclib_reader) \<and>
   EccLibFASTAReader_get_chromosome_length loaded_ecclib_reader ''chr1'' =
     (Inr 10, loaded_ecclib_reader)"
proof -
  from length_is_sequence_length [of fresh_ecclib_reader "''ref.fa''" None "[]"
      loaded_ecclib_reader "[]" "[''chr1'', ''chr2'']" "''chr1''"
      loaded_ecclib_reader "''chr1''" "''ACGTACGTAC''" loaded_ecclib_reader]
    example_full_sequence
  have "EccLibFASTAReader_get_chromosome_length loaded_ecclib_reader ''chr1'' =
     (Inr (length ''ACGTACGTAC''), loaded_ecclib_reader)"
    by blast
  with example_full_sequence example_keys example_ecc_load [of "[]"]
  show ?thesis by simp
qed

subsection \<open>C9: working implies available\<close>

text \<open>
  C9. In every state the globals go through while the module's top level runs,
  \<^verbatim>\<open>ECCLIB_WORKING\<close> implies \<^verbatim>\<open>ECCLIB_AVAILABLE\<close>; and in the state the top level ends
  in, \<^verbatim>\<open>is_ecclib_available()\<close> returns the value of \<^verbatim>\<open>ECCLIB_WORKING\<close>.
\<close>

theorem working_implies_available:
  "(\<forall>g \<in> set (module_trace p). ECCLIB_WORKING g \<longrightarrow> ECCLIB_AVAILABLE g) \<and>
   (module_init p = Inr g \<longrightarrow>
      (ECCLIB_WORKING g \<longrightarrow> ECCLIB_AVAILABLE g) \<and> is_ecclib_available g = ECCLIB_WORKING g)"
  by (auto simp: module_init_def module_trace_def is_ecclib_available_def Let_def
           split: sum.splits if_splits bool.splits)

theorem working_implies_available_witness:
  "module_init example_platform = Inr working_globals \<and>
   working_globals \<in> set (module_trace example_platform) \<and>
   ECCLIB_WORKING working_globals \<and> ECCLIB_AVAILABLE working_globals \<and>
   is_ecclib_available working_globals = ECCLIB_WORKING working_globals"
  using working_implies_available [of example_platform working_globals]
  by (simp add: module_init_def module_trace_def example_platform_def example_module_def
        working_globals_def hasattr_def py_and_def is_ecclib_available_def)

subsection \<open>C10: the step of a slice key\<close>

text \<open>
  C10. Indexing a region view with \<^verbatim>\<open>record[start:stop:step]\<close> gives what
  \<^verbatim>\<open>record[start:stop]\<close> gives, result and reader state alike, for every step.
\<close>

theorem slice_step_ignored:
  "EccLibChromosomeRecord_getitem r v (SliceKey start stop step) = EccLibChromosomeRecord_getitem r v (SliceKey start stop None)"
  by (simp add: EccLibChromosomeRecord_getitem_def)

end
